theory Spec2Isabelle
  imports Complex_Main
begin

section \<open>Values, errors and arrays\<close>

text \<open>
  A floating-point cell of a pandas column is a real number or NaN; NaN is the
  missing-value marker of the program and is modelled by \<open>None\<close>. The numbers
  inside the filter matrices are idealised as reals.
\<close>

type_synonym cell = "real option"

definition isna :: "cell \<Rightarrow> bool" where
  "isna c = (c = None)"

text \<open>
  The exceptions that can leave the modelled functions. The last two are the
  error names of the specification; no function of the program raises them.
\<close>

datatype error =
    IndexError | KeyError | AttributeError | ValueError | LinAlgError | CvError
  | UninitializedTrackError | DegenerateHomographyError

type_synonym mat = "real list list"

text \<open>\<^verbatim>\<open>np.eye(n)\<close>, \<^verbatim>\<open>A * c\<close>, \<^verbatim>\<open>np.tile(A, (k, 1))\<close>,
  \<^verbatim>\<open>scipy.linalg.block_diag(A, B)\<close> and \<^verbatim>\<open>np.dot(A, B)\<close> on two-dimensional arrays.\<close>

definition eye :: "nat \<Rightarrow> mat" where
  "eye n = map (\<lambda>i. map (\<lambda>j. if i = j then 1 else 0) [0..<n]) [0..<n]"

definition scale :: "mat \<Rightarrow> real \<Rightarrow> mat" where
  "scale A c = map (map (\<lambda>a. a * c)) A"

definition tile_rows :: "mat \<Rightarrow> nat \<Rightarrow> mat" where
  "tile_rows A k = concat (replicate k A)"

definition ncols :: "mat \<Rightarrow> nat" where
  "ncols A = (case A of [] \<Rightarrow> 0 | r # _ \<Rightarrow> length r)"

definition block_diag :: "mat \<Rightarrow> mat \<Rightarrow> mat" where
  "block_diag A B =
     map (\<lambda>r. r @ replicate (ncols B) 0) A @ map (\<lambda>r. replicate (ncols A) 0 @ r) B"

definition dot :: "mat \<Rightarrow> mat \<Rightarrow> mat" where
  "dot A B = map (\<lambda>r. map (\<lambda>c. sum_list (map2 (*) r c)) (transpose B)) A"

section \<open>kalman.py: the motion model\<close>

text \<open>The attributes of a \<^verbatim>\<open>filterpy.kalman.KalmanFilter\<close> object that the program sets.\<close>

record KalmanFilter =
  dim_x :: nat
  dim_z :: nat
  kf_F :: mat
  kf_u :: real
  kf_H :: mat
  kf_R :: mat
  kf_Q :: mat
  kf_x :: mat
  kf_P :: mat

text \<open>
  The functions of the filterpy library that the program calls. The library is not
  part of the repository, so its numerical routines are parameters of the model:
  \<^item> \<open>fp_predict\<close> is \<^verbatim>\<open>KalmanFilter.predict\<close>, the time update of state and covariance;
  \<^item> \<open>fp_update\<close> is \<^verbatim>\<open>KalmanFilter.update(z)\<close> for a measurement row \<open>z = (x, y)\<close>;
  \<^item> \<open>fp_rts_smoother\<close> is \<^verbatim>\<open>KalmanFilter.rts_smoother(mu, cov)\<close>, which inverts the
    predicted covariances and fails on a singular one; only its first result, the
    smoothed means, is used by the program;
  \<^item> \<open>fp_Q_discrete_white_noise\<close> is \<^verbatim>\<open>Q_discrete_white_noise(dim, dt, var)\<close>.
\<close>

record filterpy =
  fp_predict :: "KalmanFilter \<Rightarrow> KalmanFilter"
  fp_update :: "cell \<times> cell \<Rightarrow> KalmanFilter \<Rightarrow> KalmanFilter"
  fp_rts_smoother :: "KalmanFilter \<Rightarrow> mat list \<Rightarrow> mat list \<Rightarrow> error + mat list"
  fp_Q_discrete_white_noise :: "nat \<Rightarrow> real \<Rightarrow> real \<Rightarrow> mat"

definition kalman_filter :: "filterpy \<Rightarrow> real \<Rightarrow> real \<Rightarrow> real \<Rightarrow> nat \<Rightarrow> KalmanFilter" where
  "kalman_filter lib sx sy dt nsensors =
     (let R_std = 15 :: real;
          Q_std = 15 :: real;
          q = fp_Q_discrete_white_noise lib 3 dt (Q_std ^ 2)
      in \<lparr> dim_x = 6,
           dim_z = 2 * nsensors,
           kf_F = [[1, dt, 0.5 * dt * dt, 0, 0, 0],
                   [0, 1, dt, 0, 0, 0],
                   [0, 0, 1, 0, 0, 0],
                   [0, 0, 0, 1, dt, 0.5 * dt * dt],
                   [0, 0, 0, 0, 1, dt],
                   [0, 0, 0, 0, 0, 1]],
           kf_u = 0,
           kf_H = tile_rows [[1, 0, 0, 0, 0, 0],
                             [0, 0, 0, 1, 0, 0]] nsensors,
           kf_R = scale (eye (2 * nsensors)) (R_std ^ 2),
           kf_Q = block_diag q q,
           kf_x = transpose [[sx, 0, 0, sy, 0, 0]],
           kf_P = scale (eye 6) 15 \<rparr>)"

section \<open>kalman.py: the gap-aware forward filter\<close>

text \<open>
  Modelled from the spec: \<^verbatim>\<open>KalmanFilter.batch_filter\<close> belongs to the filterpy library,
  which is not in the repository. Following section 4.5 of the specification, a frame
  with a measurement is one predict step followed by one update step with that
  measurement, and a frame whose measurement is \<^verbatim>\<open>None\<close> is a predict step only. The
  posterior state and covariance of every frame are recorded, and the filter object
  keeps the last of them as its own state.
\<close>

definition filter_step :: "filterpy \<Rightarrow> (cell \<times> cell) option \<Rightarrow> KalmanFilter \<Rightarrow> KalmanFilter" where
  "filter_step lib z kf =
     (case z of
        None \<Rightarrow> fp_predict lib kf
      | Some m \<Rightarrow> fp_update lib m (fp_predict lib kf))"

fun batch_filter ::
  "filterpy \<Rightarrow> (cell \<times> cell) option list \<Rightarrow> KalmanFilter \<Rightarrow> mat list \<times> mat list \<times> KalmanFilter" where
  "batch_filter lib [] kf = ([], [], kf)"
| "batch_filter lib (z # zs) kf =
     (let kf1 = filter_step lib z kf;
          (ms, cs, kf2) = batch_filter lib zs kf1
      in (kf_x kf1 # ms, kf_P kf1 # cs, kf2))"

text \<open>
  One track as \<open>run_filter\<close> reads it: the rows of the group in order, each with its
  \<^verbatim>\<open>x\<close> and \<^verbatim>\<open>y\<close> cell.
\<close>

type_synonym track = "(cell \<times> cell) list"

text \<open>\<^verbatim>\<open>Series.shift()\<close>: every value moves down one row, the first row becomes NaN.\<close>

definition shift :: "cell list \<Rightarrow> cell list" where
  "shift xs = (case xs of [] \<Rightarrow> [] | _ # _ \<Rightarrow> None # butlast xs)"

text \<open>\<^verbatim>\<open>Series.cumsum()\<close> of a boolean series, with the running total made explicit.\<close>

fun cumsum :: "nat \<Rightarrow> bool list \<Rightarrow> nat list" where
  "cumsum acc [] = []"
| "cumsum acc (b # bs) = (acc + (if b then 1 else 0)) # cumsum (acc + (if b then 1 else 0)) bs"

definition blocks :: "track \<Rightarrow> nat list" where
  "blocks df =
     cumsum 0 (map2 (\<lambda>a b. isna a \<noteq> isna b) (map fst df) (shift (map fst df)))"

text \<open>
  \<^verbatim>\<open>DataFrame.groupby(keys)\<close> with its defaults: one group per distinct key, the groups
  in ascending key order, every group holding the rows of its key in their order.
\<close>

definition groupby :: "('k :: linorder) list \<Rightarrow> 'a list \<Rightarrow> ('k \<times> 'a list) list" where
  "groupby keys rows =
     map (\<lambda>k. (k, map snd (filter (\<lambda>kr. fst kr = k) (zip keys rows)))) (sort (remdups keys))"

text \<open>
  The loop of \<open>run_filter\<close> over the groups. The filter object is mutated by
  \<^verbatim>\<open>batch_filter\<close>, so it is passed from one group to the next. \<^verbatim>\<open>iloc[0]\<close> raises
  IndexError on an empty group.
\<close>

fun run_filter_loop ::
  "filterpy \<Rightarrow> track list \<Rightarrow> KalmanFilter \<Rightarrow> error + (mat list list \<times> mat list list \<times> KalmanFilter)" where
  "run_filter_loop lib [] kfilter = Inr ([], [], kfilter)"
| "run_filter_loop lib ([] # gs) kfilter = Inl IndexError"
| "run_filter_loop lib ((r # rs) # gs) kfilter =
     (let (m, c, kfilter1) =
            (if isna (fst r) \<or> isna (snd r)
             then batch_filter lib (replicate (length (r # rs)) None) kfilter
             else batch_filter lib (map Some (r # rs)) kfilter)
      in case run_filter_loop lib gs kfilter1 of
           Inl e \<Rightarrow> Inl e
         | Inr (ms, cs, kfilter2) \<Rightarrow> Inr (m # ms, c # cs, kfilter2))"

text \<open>\<^verbatim>\<open>np.vstack\<close> raises ValueError on an empty list of arrays.\<close>

definition run_filter ::
  "filterpy \<Rightarrow> KalmanFilter \<Rightarrow> track \<Rightarrow> error + (mat list \<times> mat list \<times> KalmanFilter)" where
  "run_filter lib kfilter df =
     (case run_filter_loop lib (map snd (groupby (blocks df) df)) kfilter of
        Inl e \<Rightarrow> Inl e
      | Inr (ms, cs, kfilter1) \<Rightarrow>
          if ms = [] then Inl ValueError else Inr (concat ms, concat cs, kfilter1))"

text \<open>
  The run structure in the words of the specification: the maximal contiguous runs of
  rows whose \<^verbatim>\<open>x\<close> cell has the same missing status, and the measurement that each frame
  of a run hands to the filter according to the first row of the run.
\<close>

function maximal_runs :: "track \<Rightarrow> track list" where
  "maximal_runs [] = []"
| "maximal_runs (r # rs) =
     (r # takeWhile (\<lambda>s. isna (fst s) = isna (fst r)) rs)
       # maximal_runs (dropWhile (\<lambda>s. isna (fst s) = isna (fst r)) rs)"
  by pat_completeness auto
termination
  by (relation "measure length") (auto simp: length_dropWhile_le less_Suc_eq_le)

definition run_measurements :: "track \<Rightarrow> (cell \<times> cell) option list" where
  "run_measurements g =
     (case g of
        [] \<Rightarrow> []
      | r # _ \<Rightarrow> if isna (fst r) \<or> isna (snd r) then replicate (length g) None else map Some g)"

definition measurements :: "track \<Rightarrow> (cell \<times> cell) option list" where
  "measurements df = concat (map run_measurements (maximal_runs df))"

text \<open>
  The block numbers of \<open>blocks\<close> as one pass over the rows that carries the missing
  status of the previous row and the running total.
\<close>

fun block_ids :: "bool \<Rightarrow> nat \<Rightarrow> track \<Rightarrow> nat list" where
  "block_ids prev acc [] = []"
| "block_ids prev acc (r # rs) =
     (acc + (if isna (fst r) \<noteq> prev then 1 else 0))
       # block_ids (isna (fst r)) (acc + (if isna (fst r) \<noteq> prev then 1 else 0)) rs"

section \<open>kalman.py: batch smoothing of a dataframe\<close>

text \<open>
  A dataframe: its row labels and its columns in order, every column with one cell per
  row. Rows are addressed by position; the labels are taken to be unique, as those of
  a freshly read table are, so that \<^verbatim>\<open>df.loc[gdf.index, c] = v\<close> writes the rows of the
  group.
\<close>

record dataframe =
  df_index :: "int list"
  df_columns :: "(string \<times> cell list) list"

definition column :: "dataframe \<Rightarrow> string \<Rightarrow> cell list option" where
  "column df name = map_of (df_columns df) name"

text \<open>
  \<^verbatim>\<open>df.loc[labels, name] = values\<close>: a column that does not exist yet is created with NaN
  in every row and appended; a value array of the wrong length raises ValueError.
\<close>

definition loc_set :: "dataframe \<Rightarrow> nat list \<Rightarrow> string \<Rightarrow> real list \<Rightarrow> error + dataframe" where
  "loc_set df pos name vals =
     (if length vals \<noteq> length pos then Inl ValueError
      else
        let old = (case column df name of
                     None \<Rightarrow> replicate (length (df_index df)) None
                   | Some c \<Rightarrow> c);
            new = fold (\<lambda>pv c. c[fst pv := Some (snd pv)]) (zip pos vals) old
        in Inr (df\<lparr>df_columns :=
                  (case column df name of
                     None \<Rightarrow> df_columns df @ [(name, new)]
                   | Some _ \<Rightarrow> map (\<lambda>kc. if fst kc = name then (name, new) else kc) (df_columns df))\<rparr>))"

text \<open>
  \<^verbatim>\<open>df.groupby(name)\<close> on a column: KeyError when the column is missing; rows whose key
  is NaN belong to no group. Every group is given by its key and the positions of its
  rows.
\<close>

definition groupby_column :: "dataframe \<Rightarrow> string \<Rightarrow> error + (real \<times> nat list) list" where
  "groupby_column df name =
     (case column df name of
        None \<Rightarrow> Inl KeyError
      | Some keys \<Rightarrow>
          (let kp = List.map_filter (\<lambda>kp. map_option (\<lambda>k. (k, snd kp)) (fst kp))
                      (zip keys [0..<length keys])
           in Inr (groupby (map fst kp) (map snd kp))))"

text \<open>The slice \<^verbatim>\<open>mu[:, i, 0]\<close> of an array of column vectors; IndexError outside its shape.\<close>

definition component :: "mat list \<Rightarrow> nat \<Rightarrow> error + real list" where
  "component mu i =
     (if list_all (\<lambda>m. i < length m \<and> m ! i \<noteq> []) mu
      then Inr (map (\<lambda>m. hd (m ! i)) mu)
      else Inl IndexError)"

text \<open>
  A run of assignments \<^verbatim>\<open>df.loc[gdf.index, name] = mu[:, i, 0]\<close>, in the order of the
  source. An exception leaves the assignments made before it in the dataframe.
\<close>

fun assign_columns ::
  "dataframe \<Rightarrow> nat list \<Rightarrow> (string \<times> nat) list \<Rightarrow> mat list \<Rightarrow> error option \<times> dataframe" where
  "assign_columns df pos [] mu = (None, df)"
| "assign_columns df pos ((name, i) # rest) mu =
     (case component mu i of
        Inl e \<Rightarrow> (Some e, df)
      | Inr vals \<Rightarrow>
          (case loc_set df pos name vals of
             Inl e \<Rightarrow> (Some e, df)
           | Inr df1 \<Rightarrow> assign_columns df1 pos rest mu))"

definition kalman_columns :: "(string \<times> nat) list" where
  "kalman_columns =
     [(''kalman_x'', 0), (''kalman_dx_dt'', 1), (''kalman_dx_dt_dt'', 2),
      (''kalman_y'', 3), (''kalman_dy_dt'', 4), (''kalman_dy_dt_dt'', 5)]"

definition rts_columns :: "(string \<times> nat) list" where
  "rts_columns =
     [(''rts_x'', 0), (''rts_dx_dt'', 1), (''rts_dx_dt_dt'', 2),
      (''rts_y'', 3), (''rts_dy_dt'', 4), (''rts_dy_dt_dt'', 5)]"

text \<open>
  Lines 77 to 80 of \<open>kalman\<close>: the rows of the group in which neither \<^verbatim>\<open>x\<close> nor \<^verbatim>\<open>y\<close> is
  NaN, the first of them by \<^verbatim>\<open>iloc[0]\<close> (IndexError when there is none), and the filter
  seeded there.
\<close>

definition present :: "cell \<times> cell \<Rightarrow> (real \<times> real) option" where
  "present r =
     (case r of
        (Some a, Some b) \<Rightarrow> Some (a, b)
      | _ \<Rightarrow> None)"

definition initial_filter :: "filterpy \<Rightarrow> track \<Rightarrow> error + KalmanFilter" where
  "initial_filter lib gdf =
     (case List.map_filter present gdf of
        [] \<Rightarrow> Inl IndexError
      | (init_x, init_y) # _ \<Rightarrow> Inr (kalman_filter lib init_x init_y (1 / 30) 1))"

text \<open>
  The body of the loop of \<open>kalman\<close> for the group at positions \<open>pos\<close>. Reading \<^verbatim>\<open>gdf.x\<close>
  or \<^verbatim>\<open>gdf.y\<close> raises AttributeError when the dataframe has no such column. The result
  is the exception raised, if any, and the dataframe as the body left it.
\<close>

definition kalman_track :: "filterpy \<Rightarrow> dataframe \<Rightarrow> nat list \<Rightarrow> error option \<times> dataframe" where
  "kalman_track lib df pos =
     (case (column df ''x'', column df ''y'') of
        (Some xs, Some ys) \<Rightarrow>
          (let gdf = map (\<lambda>p. (xs ! p, ys ! p)) pos
           in case initial_filter lib gdf of
                Inl e \<Rightarrow> (Some e, df)
              | Inr kfilter \<Rightarrow>
                  (case run_filter lib kfilter gdf of
                     Inl e \<Rightarrow> (Some e, df)
                   | Inr (mu, cov, kfilter1) \<Rightarrow>
                       (case assign_columns df pos kalman_columns mu of
                          (Some e, df1) \<Rightarrow> (Some e, df1)
                        | (None, df1) \<Rightarrow>
                            (case fp_rts_smoother lib kfilter1 mu cov of
                               Inl e \<Rightarrow> (Some e, df1)
                             | Inr mu_rts \<Rightarrow> assign_columns df1 pos rts_columns mu_rts))))
      | _ \<Rightarrow> (Some AttributeError, df))"

fun kalman_loop ::
  "filterpy \<Rightarrow> dataframe \<Rightarrow> (real \<times> nat list) list \<Rightarrow> error option \<times> dataframe" where
  "kalman_loop lib df [] = (None, df)"
| "kalman_loop lib df ((trackingId, pos) # groups) =
     (case kalman_track lib df pos of
        (Some e, df1) \<Rightarrow> (Some e, df1)
      | (None, df1) \<Rightarrow> kalman_loop lib df1 groups)"

text \<open>
  \<open>kalman\<close> mutates the dataframe it is given and returns that same object. The
  objects live in a store addressed by references; the result is the reference returned
  or the exception raised, and the store afterwards.
\<close>

type_synonym ref = nat

type_synonym store = "ref \<Rightarrow> dataframe"

definition kalman :: "filterpy \<Rightarrow> store \<Rightarrow> ref \<Rightarrow> (error + ref) \<times> store" where
  "kalman lib h df =
     (case groupby_column (h df) ''trackingId'' of
        Inl e \<Rightarrow> (Inl e, h)
      | Inr groups \<Rightarrow>
          (case kalman_loop lib (h df) groups of
             (Some e, d) \<Rightarrow> (Inl e, h(df := d))
           | (None, d) \<Rightarrow> (Inr df, h(df := d))))"

section \<open>pixelmapper.py\<close>

text \<open>
  An array of points, of shape (n, 1, 2) or (n, 2), is the list of its n points, so the
  slice \<^verbatim>\<open>[:, 0, :]\<close> that drops the unit axis is the identity on it. The functions of
  OpenCV are parameters of the model; each may raise \<^verbatim>\<open>cv2.error\<close>. The two
  \<^verbatim>\<open>undistortPoints\<close> functions take the points, the intrinsic matrix, the distortion
  coefficients and the new camera matrix (the rectification argument is always \<^verbatim>\<open>None\<close>).
  \<^verbatim>\<open>findHomography\<close> returns the matrix, or \<^verbatim>\<open>None\<close> when it finds no model, and the inlier
  mask.
\<close>

type_synonym points = "(real \<times> real) list"

record cv2 =
  cv_findHomography :: "points \<Rightarrow> points \<Rightarrow> nat \<Rightarrow> real \<Rightarrow> error + (mat option \<times> bool list)"
  cv_perspectiveTransform :: "points \<Rightarrow> mat option \<Rightarrow> error + points"
  cv_undistortPoints :: "points \<Rightarrow> mat \<Rightarrow> mat option \<Rightarrow> mat option \<Rightarrow> error + points"
  cv_fisheye_undistortPoints :: "points \<Rightarrow> mat \<Rightarrow> mat option \<Rightarrow> mat option \<Rightarrow> error + points"

definition RANSAC :: nat where
  "RANSAC = 8"

definition private_extrinsic_calibration :: "cv2 \<Rightarrow> points \<Rightarrow> points \<Rightarrow> error + mat option" where
  "private_extrinsic_calibration cv pts_src pts_dst =
     (case cv_findHomography cv pts_src pts_dst RANSAC 5.0 of
        Inl e \<Rightarrow> Inl e
      | Inr (h, inliers) \<Rightarrow> Inr h)"

record PixelMapper =
  intrinsic_mtx :: "mat option"
  distortion :: "mat option"
  newcameramtx :: "mat option"
  homography :: "mat option"
  fisheye :: bool

definition undistort :: "cv2 \<Rightarrow> PixelMapper \<Rightarrow> points \<Rightarrow> error + points" where
  "undistort cv self X =
     (case intrinsic_mtx self of
        Some K \<Rightarrow>
          if fisheye self
          then cv_fisheye_undistortPoints cv X K (distortion self) (newcameramtx self)
          else cv_undistortPoints cv X K (distortion self) (newcameramtx self)
      | None \<Rightarrow> Inr X)"

text \<open>
  \<^verbatim>\<open>PixelMapper.__call__\<close>, with the object made explicit: the result of the call and the
  object as the call leaves it.
\<close>

definition PixelMapper_call :: "cv2 \<Rightarrow> PixelMapper \<Rightarrow> points \<Rightarrow> (error + points) \<times> PixelMapper" where
  "PixelMapper_call cv self X =
     (case (if intrinsic_mtx self \<noteq> None then undistort cv self X else Inr X) of
        Inl e \<Rightarrow> (Inl e, self)
      | Inr X1 \<Rightarrow> (cv_perspectiveTransform cv X1 (homography self), self))"

text \<open>
  The names an instance of \<open>PixelMapper\<close> answers to: the methods of the class body
  and the attributes set by \<^verbatim>\<open>__init__\<close>. Any other name raises AttributeError.
\<close>

definition PixelMapper_names :: "string list" where
  "PixelMapper_names =
     [''__init__'', ''undistort'', ''__call__'',
      ''intrinsic_mtx'', ''distortion'', ''newcameramtx'', ''homography'', ''fisheye'']"

definition PixelMapper_getattr :: "string \<Rightarrow> error + string" where
  "PixelMapper_getattr name =
     (if name \<in> set PixelMapper_names then Inr name else Inl AttributeError)"

section \<open>Concrete libraries and tables\<close>

text \<open>
  A small stand-in for the filterpy functions, to run the model on concrete tracks:
  the prediction propagates the mean by the transition matrix, the update replaces the
  state by the measurement when both of its cells are numbers, the smoother returns the
  filtered means unchanged.
\<close>

definition stand_in_filterpy :: filterpy where
  "stand_in_filterpy =
     \<lparr> fp_predict = (\<lambda>k. k\<lparr>kf_x := dot (kf_F k) (kf_x k)\<rparr>),
       fp_update = (\<lambda>z k. case z of
                              (Some a, Some b) \<Rightarrow> k\<lparr>kf_x := [[a], [0], [0], [b], [0], [0]]\<rparr>
                            | _ \<Rightarrow> k),
       fp_rts_smoother = (\<lambda>k mu cov. Inr mu),
       fp_Q_discrete_white_noise = (\<lambda>d dt v. scale (eye d) v) \<rparr>"

text \<open>The store in which every reference holds the dataframe \<open>d\<close>.\<close>

definition store_of :: "dataframe \<Rightarrow> store" where
  "store_of d = (\<lambda>r. d)"

text \<open>One track of one frame whose measurement is missing.\<close>

definition df_no_measurement :: dataframe where
  "df_no_measurement =
     \<lparr> df_index = [0],
       df_columns = [(''frame'', [Some 0]), (''trackingId'', [Some 1]),
                     (''x'', [None]), (''y'', [None])] \<rparr>"

text \<open>Track 1 has no measurement at all; track 2 has one frame with a measurement.\<close>

definition df_two_tracks :: dataframe where
  "df_two_tracks =
     \<lparr> df_index = [0, 1],
       df_columns = [(''frame'', [Some 0, Some 0]), (''trackingId'', [Some 1, Some 2]),
                     (''x'', [None, Some 2]), (''y'', [None, Some 2])] \<rparr>"





text \<open>
  Four points of one horizontal line. The estimator of OpenCV finds no model for them:
  it answers \<^verbatim>\<open>None\<close> for the matrix, with a mask that marks no point as an inlier.
\<close>

definition collinear_points :: points where
  "collinear_points = [(0, 0), (1, 0), (2, 0), (3, 0)]"

text \<open>
  A point set has no spread when all its points share one coordinate. The estimator
  normalises each point set by its spread along both axes and gives up when one of
  them is zero.
\<close>

definition no_spread :: "points \<Rightarrow> bool" where
  "no_spread ps =
     (case ps of
        [] \<Rightarrow> True
      | p # qs \<Rightarrow> list_all (\<lambda>q. fst q = fst p) qs \<or> list_all (\<lambda>q. snd q = snd p) qs)"

text \<open>
  A stand-in for OpenCV that covers the estimator on point sets without spread only:
  at least four correspondences are required, and then it answers as OpenCV does there,
  with \<^verbatim>\<open>None\<close> and an all-zero mask. It refuses every other call, so nothing is said
  about the matrices that OpenCV fits to proper point sets.
\<close>

definition stand_in_cv2 :: cv2 where
  "stand_in_cv2 =
     \<lparr> cv_findHomography =
         (\<lambda>src dst method threshold.
            if length src < 4 \<or> length dst \<noteq> length src then Inl CvError
            else if no_spread src \<or> no_spread dst then Inr (None, map (\<lambda>p. False) src)
            else Inl CvError),
       cv_perspectiveTransform = (\<lambda>X h. Inl CvError),
       cv_undistortPoints = (\<lambda>X K D P. Inl CvError),
       cv_fisheye_undistortPoints = (\<lambda>X K D P. Inl CvError) \<rparr>"

section \<open>The motion model\<close>

text \<open>
  C5. The transition matrix built by \<open>kalman_filter\<close> maps a state column
  (position, velocity, acceleration of x, then of y) to constant-acceleration
  kinematics over the time step: position + velocity * dt + 0.5 * acceleration * dt^2,
  velocity + acceleration * dt, acceleration unchanged; the x chain reads only the
  x entries and the y chain only the y entries.
\<close>

theorem transition_matrix_kinematics:
  "dot (kf_F (kalman_filter lib sx sy dt nsensors)) [[px], [vx], [ax], [py], [vy], [ay]] =
     [[px + vx * dt + 0.5 * ax * dt ^ 2],
      [vx + ax * dt],
      [ax],
      [py + vy * dt + 0.5 * ay * dt ^ 2],
      [vy + ay * dt],
      [ay]]"
  by (simp add: kalman_filter_def Let_def dot_def power2_eq_square algebra_simps)

section \<open>The run partition of the forward filter\<close>

text \<open>
  Grouping the rows by the running block number yields the maximal runs of constant
  missing status of \<^verbatim>\<open>x\<close>, in order.
\<close>

lemma cumsum_shifted:
  "cumsum acc (map2 (\<lambda>a b. isna a \<noteq> isna b) (map fst df) (p # butlast (map fst df)))
     = block_ids (isna p) acc df"
proof (induction df arbitrary: p acc)
  case Nil
  show ?case by simp
next
  case (Cons r rs)
  show ?case
  proof (cases rs)
    case Nil
    then show ?thesis by simp
  next
    case (Cons s ss)
    with Cons.IH [of "acc + (if isna (fst r) \<noteq> isna p then 1 else 0)" "fst r"]
    show ?thesis by simp
  qed
qed

lemma blocks_block_ids: "blocks df = block_ids True 0 df"
proof (cases df)
  case Nil
  then show ?thesis by (simp add: blocks_def shift_def)
next
  case (Cons r rs)
  have "shift (map fst df) = None # butlast (map fst df)"
    using Cons by (simp add: shift_def)
  then show ?thesis
    using cumsum_shifted [of 0 df None] by (simp add: blocks_def isna_def)
qed

lemma block_ids_same:
  "block_ids b k rs =
     replicate (length (takeWhile (\<lambda>s. isna (fst s) = b) rs)) k
       @ block_ids b k (dropWhile (\<lambda>s. isna (fst s) = b) rs)"
  by (induction rs) auto

lemma block_ids_ge: "j \<in> set (block_ids prev k rs) \<Longrightarrow> k \<le> j"
proof (induction rs arbitrary: prev k)
  case Nil
  then show ?case by simp
next
  case (Cons r rs)
  then show ?case by (fastforce split: if_splits)
qed

lemma block_ids_after_run:
  assumes "j \<in> set (block_ids b k (dropWhile (\<lambda>s. isna (fst s) = b) rs))"
  shows "k < j"
proof (cases "dropWhile (\<lambda>s. isna (fst s) = b) rs")
  case Nil
  with assms show ?thesis by simp
next
  case (Cons s ss)
  then have "isna (fst s) \<noteq> b"
    using hd_dropWhile [of "\<lambda>s. isna (fst s) = b" rs] by auto
  with assms Cons have "j = Suc k \<or> j \<in> set (block_ids (isna (fst s)) (Suc k) ss)"
    by auto
  then show ?thesis using block_ids_ge [of j "isna (fst s)" "Suc k" ss] by auto
qed

lemma sort_remdups_first:
  fixes k :: "'k :: linorder"
  assumes "0 < n" and "\<And>j. j \<in> set ks \<Longrightarrow> k < j"
  shows "sort (remdups (replicate n k @ ks)) = k # sort (remdups ks)"
proof -
  have notin: "k \<notin> set ks" using assms(2) by auto
  have "set (replicate n k @ ks) = insert k (set ks)"
    using assms(1) by auto
  moreover have sr: "sort (remdups xs) = sorted_list_of_set (set xs)" for xs :: "'k list"
    by (simp only: sorted_list_of_set_sort_remdups)
  ultimately have "sort (remdups (replicate n k @ ks)) = sorted_list_of_set (insert k (set ks))"
    by (simp only: sr)
  also have "\<dots> = insort k (sorted_list_of_set (set ks))"
    using notin by simp
  also have "\<dots> = k # sorted_list_of_set (set ks)"
    by (rule insort_is_Cons) (use assms(2) in \<open>auto simp: less_imp_le\<close>)
  finally show ?thesis by (simp only: sr)
qed

lemma groupby_first_run:
  fixes k :: "'k :: linorder"
  assumes "g \<noteq> []" and "\<And>j. j \<in> set ks \<Longrightarrow> k < j"
  shows "groupby (replicate (length g) k @ ks) (g @ rest) = (k, g) # groupby ks rest"
proof -
  have notin: "k \<notin> set ks" using assms(2) by auto
  have z: "zip (replicate (length g) k @ ks) (g @ rest) = zip (replicate (length g) k) g @ zip ks rest"
    by simp
  have first: "filter (\<lambda>kr. fst kr = k) (zip ks rest) = []"
    using notin by (auto simp: filter_empty_conv dest: set_zip_leftD)
  have own: "filter (\<lambda>kr. fst kr = k) (zip (replicate (length g) k) g) = zip (replicate (length g) k) g"
    by (auto simp: filter_id_conv dest: set_zip_leftD)
  have other: "filter (\<lambda>kr. fst kr = j) (zip (replicate (length g) k) g) = []" if "j \<in> set ks" for j
    using that notin by (auto simp: filter_empty_conv dest!: set_zip_leftD)
  have "sort (remdups (replicate (length g) k @ ks)) = k # sort (remdups ks)"
    using assms by (intro sort_remdups_first) auto
  then show ?thesis
    unfolding groupby_def z
    by (simp add: first own other map_snd_zip cong: map_cong)
qed

lemma groupby_block_ids: "map snd (groupby (block_ids prev acc df) df) = maximal_runs df"
proof (induction df arbitrary: prev acc rule: maximal_runs.induct)
  case 1
  show ?case by (simp add: groupby_def)
next
  case (2 r rs)
  define k where "k = acc + (if isna (fst r) \<noteq> prev then 1 else 0)"
  define tw where "tw = takeWhile (\<lambda>s. isna (fst s) = isna (fst r)) rs"
  define dw where "dw = dropWhile (\<lambda>s. isna (fst s) = isna (fst r)) rs"
  have ids: "block_ids prev acc (r # rs) =
      replicate (length (r # tw)) k @ block_ids (isna (fst r)) k dw"
    using block_ids_same [of "isna (fst r)" k rs] by (simp add: k_def tw_def dw_def)
  have rows: "r # rs = (r # tw) @ dw"
    by (simp add: tw_def dw_def)
  have "groupby (replicate (length (r # tw)) k @ block_ids (isna (fst r)) k dw) ((r # tw) @ dw) =
      (k, r # tw) # groupby (block_ids (isna (fst r)) k dw) dw"
    by (rule groupby_first_run) (auto simp: dw_def dest: block_ids_after_run)
  then have "groupby (block_ids prev acc (r # rs)) (r # rs) =
      (k, r # tw) # groupby (block_ids (isna (fst r)) k dw) dw"
    by (metis ids rows)
  then show ?case
    using "2.IH" [of "isna (fst r)" k] by (simp add: tw_def dw_def)
qed

lemma groups_are_maximal_runs: "map snd (groupby (blocks df) df) = maximal_runs df"
  by (simp add: blocks_block_ids groupby_block_ids)

section \<open>The forward filter as one continuous pass\<close>

text \<open>
  Filtering two measurement sequences one after the other, the second from the state
  the first one left, is filtering their concatenation: nothing is reset in between.
\<close>

lemma batch_filter_append:
  "batch_filter lib (zs1 @ zs2) kf =
     (case batch_filter lib zs1 kf of
        (m1, c1, kf1) \<Rightarrow>
          (case batch_filter lib zs2 kf1 of
             (m2, c2, kf2) \<Rightarrow> (m1 @ m2, c1 @ c2, kf2)))"
  by (induction zs1 arbitrary: kf) (auto simp: Let_def split: prod.splits)

lemma batch_filter_lengths:
  "batch_filter lib zs kf = (ms, cs, kf1) \<Longrightarrow> length ms = length zs \<and> length cs = length zs"
  by (induction zs arbitrary: kf ms cs kf1) (auto simp: Let_def split: prod.splits)

lemma maximal_runs_nonempty: "list_all (\<lambda>g. g \<noteq> []) (maximal_runs df)"
  by (induction df rule: maximal_runs.induct) auto

lemma maximal_runs_concat: "concat (maximal_runs df) = df"
  by (induction df rule: maximal_runs.induct) auto

lemma maximal_runs_Nil: "maximal_runs df = [] \<longleftrightarrow> df = []"
  by (cases df) auto

lemma run_filter_loop_batch:
  assumes "list_all (\<lambda>g. g \<noteq> []) gs"
  shows "\<exists>ms cs kf1. run_filter_loop lib gs kf = Inr (ms, cs, kf1)
           \<and> batch_filter lib (concat (map run_measurements gs)) kf = (concat ms, concat cs, kf1)
           \<and> length ms = length gs"
  using assms
proof (induction gs arbitrary: kf)
  case Nil
  show ?case by simp
next
  case (Cons g gs)
  then obtain r rs where g: "g = r # rs" by (cases g) auto
  obtain m c k1 where first: "batch_filter lib (run_measurements g) kf = (m, c, k1)"
    by (cases "batch_filter lib (run_measurements g) kf") auto
  from Cons.prems have "list_all (\<lambda>g. g \<noteq> []) gs" by simp
  from Cons.IH [OF this, of k1] obtain ms cs kf1 where
    rest: "run_filter_loop lib gs k1 = Inr (ms, cs, kf1)"
      "batch_filter lib (concat (map run_measurements gs)) k1 = (concat ms, concat cs, kf1)"
      "length ms = length gs"
    by blast
  have "run_filter_loop lib (g # gs) kf = Inr (m # ms, c # cs, kf1)"
    using first rest(1) by (auto simp: g run_measurements_def split: if_splits)
  moreover have "batch_filter lib (concat (map run_measurements (g # gs))) kf
      = (concat (m # ms), concat (c # cs), kf1)"
    using first rest(2) by (simp add: batch_filter_append)
  ultimately show ?case using rest(3) by simp
qed

lemma run_filter_Nil: "run_filter lib kf [] = Inl ValueError"
  by (simp add: run_filter_def groups_are_maximal_runs)

lemma run_filter_measurements:
  assumes "df \<noteq> []"
  shows "run_filter lib kf df = Inr (batch_filter lib (measurements df) kf)"
proof -
  obtain ms cs kf1 where
    loop: "run_filter_loop lib (maximal_runs df) kf = Inr (ms, cs, kf1)"
    and batch: "batch_filter lib (measurements df) kf = (concat ms, concat cs, kf1)"
    and len: "length ms = length (maximal_runs df)"
    using run_filter_loop_batch [OF maximal_runs_nonempty, of lib df kf]
    unfolding measurements_def by blast
  have "ms \<noteq> []" using len assms maximal_runs_Nil [of df] by auto
  then show ?thesis
    using loop batch by (simp add: run_filter_def groups_are_maximal_runs)
qed

lemma measurements_length: "length (measurements df) = length df"
proof -
  have "length (run_measurements g) = length g" for g
    by (cases g) (auto simp: run_measurements_def)
  then have "length (concat (map run_measurements gs)) = length (concat gs)" for gs
    by (induction gs) auto
  then show ?thesis by (simp add: measurements_def maximal_runs_concat)
qed

lemma measurements_together:
  assumes "list_all (\<lambda>r. isna (fst r) = isna (snd r)) df"
  shows "measurements df = map (\<lambda>r. if isna (fst r) then None else Some r) df"
  using assms
proof (induction df rule: maximal_runs.induct)
  case 1
  show ?case by (simp add: measurements_def)
next
  case (2 r rs)
  let ?P = "\<lambda>s. isna (fst s) = isna (fst r)"
  let ?f = "\<lambda>r. if isna (fst r) then None else Some r"
  have all: "list_all (\<lambda>r. isna (fst r) = isna (snd r)) (dropWhile ?P rs)"
    using "2.prems" by (auto simp: list_all_iff dest: set_dropWhileD)
  have run: "run_measurements (r # takeWhile ?P rs) = map ?f (r # takeWhile ?P rs)"
    using "2.prems" by (auto simp: run_measurements_def map_replicate_const [symmetric] dest: set_takeWhileD)
  have "measurements (r # rs) = run_measurements (r # takeWhile ?P rs) @ measurements (dropWhile ?P rs)"
    by (simp add: measurements_def)
  also have "\<dots> = map ?f (r # takeWhile ?P rs) @ map ?f (dropWhile ?P rs)"
    using "2.IH" [OF all] run by simp
  also have "\<dots> = map ?f (r # rs)"
    by (simp flip: map_append)
  finally show ?case .
qed

text \<open>The first valid row, as \<open>find\<close> sees it, heads the list of valid rows.\<close>

lemma find_first_present:
  assumes "find (\<lambda>r. \<not> isna (fst r) \<and> \<not> isna (snd r)) gdf = Some (Some a, Some b)"
  shows "\<exists>rest. List.map_filter present gdf = (a, b) # rest"
  using assms
proof (induction gdf)
  case Nil
  then show ?case by simp
next
  case (Cons r gdf)
  show ?case
  proof (cases "\<not> isna (fst r) \<and> \<not> isna (snd r)")
    case True
    with Cons.prems have "r = (Some a, Some b)" by simp
    then show ?thesis by (simp add: List.map_filter_simps present_def)
  next
    case False
    then have "present r = None"
      by (cases r) (auto simp: present_def isna_def split: option.splits)
    moreover from False Cons.prems
    have "find (\<lambda>r. \<not> isna (fst r) \<and> \<not> isna (snd r)) gdf = Some (Some a, Some b)"
      by (simp split: if_splits)
    ultimately show ?thesis using Cons.IH by (simp add: List.map_filter_simps)
  qed
qed

text \<open>
  C7. When the first row of a track in which both \<^verbatim>\<open>x\<close> and \<^verbatim>\<open>y\<close> are present holds
  \<open>(a, b)\<close>, the filter built for the track starts at position \<open>(a, b)\<close> with velocity
  and acceleration zero on both axes, and its initial covariance is the diagonal matrix
  with 15 on the diagonal.
\<close>

theorem initial_state_from_first_measurement:
  assumes "find (\<lambda>r. \<not> isna (fst r) \<and> \<not> isna (snd r)) gdf = Some (Some a, Some b)"
  shows "\<exists>kfilter. initial_filter lib gdf = Inr kfilter
           \<and> kf_x kfilter = [[a], [0], [0], [b], [0], [0]]
           \<and> kf_P kfilter = [[15, 0, 0, 0, 0, 0],
                              [0, 15, 0, 0, 0, 0],
                              [0, 0, 15, 0, 0, 0],
                              [0, 0, 0, 15, 0, 0],
                              [0, 0, 0, 0, 15, 0],
                              [0, 0, 0, 0, 0, 15]]"
proof -
  obtain rest where "List.map_filter present gdf = (a, b) # rest"
    using find_first_present [OF assms] by blast
  then have "initial_filter lib gdf = Inr (kalman_filter lib a b (1 / 30) 1)"
    by (simp add: initial_filter_def)
  moreover have "kf_x (kalman_filter lib a b (1 / 30) 1) = [[a], [0], [0], [b], [0], [0]]"
    by (simp add: kalman_filter_def Let_def)
  moreover have "kf_P (kalman_filter lib a b (1 / 30) 1) =
      [[15, 0, 0, 0, 0, 0], [0, 15, 0, 0, 0, 0], [0, 0, 15, 0, 0, 0],
       [0, 0, 0, 15, 0, 0], [0, 0, 0, 0, 15, 0], [0, 0, 0, 0, 0, 15]]"
    by (simp add: kalman_filter_def Let_def eye_def scale_def upt_conv_Cons)
  ultimately show ?thesis by simp
qed

theorem initial_state_from_first_measurement_witness:
  "find (\<lambda>r. \<not> isna (fst r) \<and> \<not> isna (snd r)) [(Some 4, None), (Some 5, Some 6), (Some 7, Some 8)]
     = Some (Some 5, Some 6)
   \<and> (\<exists>kfilter. initial_filter stand_in_filterpy [(Some 4, None), (Some 5, Some 6), (Some 7, Some 8)] = Inr kfilter
           \<and> kf_x kfilter = [[5], [0], [0], [6], [0], [0]]
           \<and> kf_P kfilter = [[15, 0, 0, 0, 0, 0],
                              [0, 15, 0, 0, 0, 0],
                              [0, 0, 15, 0, 0, 0],
                              [0, 0, 0, 15, 0, 0],
                              [0, 0, 0, 0, 15, 0],
                              [0, 0, 0, 0, 0, 15]])"
proof -
  have h: "find (\<lambda>r. \<not> isna (fst r) \<and> \<not> isna (snd r)) [(Some 4, None), (Some 5, Some 6), (Some 7, Some (8::real))]
     = Some (Some (5::real), Some (6::real))"
    by (simp add: isna_def)
  show ?thesis
    using h initial_state_from_first_measurement [OF h, of stand_in_filterpy] by blast
qed

section \<open>The forward filter on gaps\<close>

lemma block_ids_status_only:
  "map (\<lambda>r. isna (fst r)) df = map (\<lambda>r. isna (fst r)) df'
     \<Longrightarrow> block_ids prev acc df = block_ids prev acc df'"
proof (induction df arbitrary: df' prev acc)
  case Nil
  then show ?case by simp
next
  case (Cons r rs)
  then obtain r' rs' where "df' = r' # rs'" by (cases df') auto
  with Cons show ?case by auto
qed

lemma maximal_runs_all_present:
  assumes "\<not> isna (fst r)" and "list_all (\<lambda>s. \<not> isna (fst s)) rs"
  shows "maximal_runs (r # rs) = [r # rs]"
proof -
  have same: "\<And>s. s \<in> set rs \<Longrightarrow> isna (fst s) = isna (fst r)"
    using assms by (auto simp: list_all_iff)
  have tw: "takeWhile (\<lambda>s. isna (fst s) = isna (fst r)) rs = rs"
    using same by (simp add: takeWhile_eq_all_conv)
  have dw: "dropWhile (\<lambda>s. isna (fst s) = isna (fst r)) rs = []"
    using same by (simp add: dropWhile_eq_Nil_conv)
  show ?thesis
    by (simp only: maximal_runs.simps tw dw)
qed

text \<open>
  When \<^verbatim>\<open>x\<close> and \<^verbatim>\<open>y\<close> are missing together in every row, the forward filter is one
  continuous pass that predicts only at the missing frames and predicts and updates at
  the present ones.
\<close>

lemma run_filter_together:
  assumes "df \<noteq> []" and "list_all (\<lambda>r. isna (fst r) = isna (snd r)) df"
  shows "run_filter lib kf df =
     Inr (batch_filter lib (map (\<lambda>r. if isna (fst r) then None else Some r) df) kf)"
  using assms by (simp add: run_filter_measurements measurements_together)

lemma batch_two_gaps:
  "batch_filter lib [None, None] kf =
     ([kf_x (fp_predict lib kf), kf_x (fp_predict lib (fp_predict lib kf))],
      [kf_P (fp_predict lib kf), kf_P (fp_predict lib (fp_predict lib kf))],
      fp_predict lib (fp_predict lib kf))"
  by (simp add: filter_step_def Let_def)

lemma batch_two_updates:
  "batch_filter lib [Some z1, Some z2] kf =
     ([kf_x (fp_update lib z1 (fp_predict lib kf)),
       kf_x (fp_update lib z2 (fp_predict lib (fp_update lib z1 (fp_predict lib kf))))],
      [kf_P (fp_update lib z1 (fp_predict lib kf)),
       kf_P (fp_update lib z2 (fp_predict lib (fp_update lib z1 (fp_predict lib kf))))],
      fp_update lib z2 (fp_predict lib (fp_update lib z1 (fp_predict lib kf))))"
  by (simp add: filter_step_def Let_def)

text \<open>
  C1. On the track whose first frame has \<^verbatim>\<open>x\<close> but no \<^verbatim>\<open>y\<close> and whose second frame has
  the measurement \<open>(2, 2)\<close>, the forward filter makes two predict steps and no update:
  the frame with a present measurement is treated as a gap.
\<close>

theorem present_frame_not_updated:
  "run_filter lib kf [(Some 1, None), (Some 2, Some 2)] =
     Inr ([kf_x (fp_predict lib kf), kf_x (fp_predict lib (fp_predict lib kf))],
          [kf_P (fp_predict lib kf), kf_P (fp_predict lib (fp_predict lib kf))],
          fp_predict lib (fp_predict lib kf))"
proof -
  have "measurements [(Some 1, None), (Some 2, Some 2)] = [None, None]"
    by (simp add: measurements_def run_measurements_def isna_def)
  then have "run_filter lib kf [(Some 1, None), (Some 2, Some 2)]
      = Inr (batch_filter lib [None, None] kf)"
    by (simp only: run_filter_measurements [OF list.distinct(2)])
  then show ?thesis
    by (simp only: batch_two_gaps)
qed

text \<open>
  C10. The block numbers of \<open>run_filter\<close> depend on nothing but the missing status of
  \<^verbatim>\<open>x\<close>; the filter output is the continuous pass over the maximal runs of constant
  \<^verbatim>\<open>x\<close> status, each run handing over the measurements that its first row alone
  selects; so a track that starts with a full measurement and never misses \<^verbatim>\<open>x\<close> has
  every row sent to the update step, and a second row with \<^verbatim>\<open>x\<close> present and \<^verbatim>\<open>y\<close>
  missing is updated with that half-missing measurement.
\<close>

theorem run_partition_by_x_and_first_row:
  "(map (\<lambda>r. isna (fst r)) df = map (\<lambda>r. isna (fst r)) df' \<longrightarrow> blocks df = blocks df')
   \<and> (df \<noteq> [] \<longrightarrow>
        run_filter lib kf df =
          Inr (batch_filter lib (concat (map run_measurements (maximal_runs df))) kf))
   \<and> (\<not> isna (fst r) \<and> \<not> isna (snd r) \<and> list_all (\<lambda>s. \<not> isna (fst s)) rs \<longrightarrow>
        run_filter lib kf (r # rs) = Inr (batch_filter lib (map Some (r # rs)) kf))
   \<and> run_filter lib kf [(Some a, Some b), (Some c, None)] =
        Inr ([kf_x (fp_update lib (Some a, Some b) (fp_predict lib kf)),
              kf_x (fp_update lib (Some c, None)
                     (fp_predict lib (fp_update lib (Some a, Some b) (fp_predict lib kf))))],
             [kf_P (fp_update lib (Some a, Some b) (fp_predict lib kf)),
              kf_P (fp_update lib (Some c, None)
                     (fp_predict lib (fp_update lib (Some a, Some b) (fp_predict lib kf))))],
             fp_update lib (Some c, None)
               (fp_predict lib (fp_update lib (Some a, Some b) (fp_predict lib kf))))"
proof (intro conjI impI)
  assume "map (\<lambda>r. isna (fst r)) df = map (\<lambda>r. isna (fst r)) df'"
  then have "block_ids True 0 df = block_ids True 0 df'"
    by (rule block_ids_status_only)
  then show "blocks df = blocks df'"
    by (simp only: blocks_block_ids)
next
  assume "df \<noteq> []"
  then show "run_filter lib kf df =
      Inr (batch_filter lib (concat (map run_measurements (maximal_runs df))) kf)"
    by (simp add: run_filter_measurements measurements_def)
next
  assume a: "\<not> isna (fst r) \<and> \<not> isna (snd r) \<and> list_all (\<lambda>s. \<not> isna (fst s)) rs"
  then have "maximal_runs (r # rs) = [r # rs]"
    by (intro maximal_runs_all_present) (erule conjunct1, elim conjE, assumption)
  with a have "measurements (r # rs) = map Some (r # rs)"
    by (simp add: measurements_def run_measurements_def)
  then show "run_filter lib kf (r # rs) = Inr (batch_filter lib (map Some (r # rs)) kf)"
    by (simp add: run_filter_measurements)
next
  show "run_filter lib kf [(Some a, Some b), (Some c, None)] =
        Inr ([kf_x (fp_update lib (Some a, Some b) (fp_predict lib kf)),
              kf_x (fp_update lib (Some c, None)
                     (fp_predict lib (fp_update lib (Some a, Some b) (fp_predict lib kf))))],
             [kf_P (fp_update lib (Some a, Some b) (fp_predict lib kf)),
              kf_P (fp_update lib (Some c, None)
                     (fp_predict lib (fp_update lib (Some a, Some b) (fp_predict lib kf))))],
             fp_update lib (Some c, None)
               (fp_predict lib (fp_update lib (Some a, Some b) (fp_predict lib kf))))"
  proof -
    have "measurements [(Some a, Some b), (Some c, None)]
        = [Some (Some a, Some b), Some (Some c, None)]"
      by (simp add: measurements_def run_measurements_def isna_def)
    then have "run_filter lib kf [(Some a, Some b), (Some c, None)]
        = Inr (batch_filter lib [Some (Some a, Some b), Some (Some c, None)] kf)"
      by (simp only: run_filter_measurements [OF list.distinct(2)])
    then show ?thesis
      by (simp only: batch_two_updates)
  qed
qed

theorem run_partition_by_x_and_first_row_witness:
  "map (\<lambda>r. isna (fst r)) ([(Some 1, Some 1), (Some 2, None)] :: track)
     = map (\<lambda>r. isna (fst r)) ([(Some 5, None), (Some 7, Some 7)] :: track)
   \<and> blocks [(Some 1, Some 1), (Some 2, None)] = blocks [(Some 5, None), (Some 7, Some 7)]
   \<and> ([(Some 1, Some 1), (Some 2, None)] :: track) \<noteq> []
   \<and> \<not> isna (fst ((Some 1, Some 1) :: cell \<times> cell))
   \<and> \<not> isna (snd ((Some 1, Some 1) :: cell \<times> cell))
   \<and> list_all (\<lambda>s. \<not> isna (fst s)) ([(Some 2, None)] :: track)
   \<and> run_filter stand_in_filterpy (kalman_filter stand_in_filterpy 1 1 (1 / 30) 1)
         [(Some 1, Some 1), (Some 2, None)]
       = Inr (batch_filter stand_in_filterpy (map Some [(Some 1, Some 1), (Some 2, None)])
               (kalman_filter stand_in_filterpy 1 1 (1 / 30) 1))"
proof -
  let ?df = "[(Some 1, Some 1), (Some 2, None)] :: track"
  let ?df' = "[(Some 5, None), (Some 7, Some 7)] :: track"
  let ?kf = "kalman_filter stand_in_filterpy 1 1 (1 / 30) 1"
  have 1: "map (\<lambda>r. isna (fst r)) ?df = map (\<lambda>r. isna (fst r)) ?df'"
    by (simp add: isna_def)
  have 2: "\<not> isna (fst ((Some 1, Some 1) :: cell \<times> cell))
      \<and> \<not> isna (snd ((Some 1, Some 1) :: cell \<times> cell))
      \<and> list_all (\<lambda>s. \<not> isna (fst s)) ([(Some 2, None)] :: track)"
    by (simp add: isna_def)
  have 3: "?df \<noteq> []"
    by simp
  note t = run_partition_by_x_and_first_row
    [of ?df ?df' stand_in_filterpy ?kf "(Some 1, Some 1)" "[(Some 2, None)]"]
  from t have "map (\<lambda>r. isna (fst r)) ?df = map (\<lambda>r. isna (fst r)) ?df' \<longrightarrow> blocks ?df = blocks ?df'"
    by (rule conjunct1)
  with 1 have b: "blocks ?df = blocks ?df'"
    by (rule rev_mp)
  from t have "\<not> isna (fst ((Some 1, Some 1) :: cell \<times> cell))
      \<and> \<not> isna (snd ((Some 1, Some 1) :: cell \<times> cell))
      \<and> list_all (\<lambda>s. \<not> isna (fst s)) ([(Some 2, None)] :: track) \<longrightarrow>
      run_filter stand_in_filterpy ?kf ?df = Inr (batch_filter stand_in_filterpy (map Some ?df) ?kf)"
    by (rule conjunct1 [OF conjunct2 [OF conjunct2]])
  with 2 have c: "run_filter stand_in_filterpy ?kf ?df
      = Inr (batch_filter stand_in_filterpy (map Some ?df) ?kf)"
    by (rule rev_mp)
  show ?thesis
    by (rule conjI [OF 1 conjI [OF b conjI [OF 3 conjI [OF 2 [THEN conjunct1]
          conjI [OF 2 [THEN conjunct2, THEN conjunct1]
            conjI [OF 2 [THEN conjunct2, THEN conjunct2] c]]]]]])
qed

section \<open>Failures of the batch\<close>

lemma no_present_row:
  "list_all (\<lambda>r. isna (fst r) \<or> isna (snd r)) gdf \<Longrightarrow> List.map_filter present gdf = []"
proof (induction gdf)
  case Nil
  show ?case by (simp add: List.map_filter_simps)
next
  case (Cons r gdf)
  then have "present r = None"
    by (cases r) (auto simp: present_def isna_def split: option.splits)
  with Cons show ?case by (simp add: List.map_filter_simps)
qed

lemma kalman_loop_append:
  "kalman_loop lib df (pre @ groups) =
     (case kalman_loop lib df pre of
        (Some e, d) \<Rightarrow> (Some e, d)
      | (None, d) \<Rightarrow> kalman_loop lib d groups)"
  by (induction pre arbitrary: df) (auto split: prod.splits option.splits)

text \<open>
  The body of the batch loop on a track of one row with a measurement, run with the
  stand-in library: what is left is the writing of the twelve columns.
\<close>

lemma batch_one_update:
  "batch_filter lib [Some z] kf =
     ([kf_x (fp_update lib z (fp_predict lib kf))],
      [kf_P (fp_update lib z (fp_predict lib kf))],
      fp_update lib z (fp_predict lib kf))"
  by (simp add: filter_step_def Let_def)

lemma run_filter_single:
  "run_filter lib kf [(Some a, Some b)] =
     Inr ([kf_x (fp_update lib (Some a, Some b) (fp_predict lib kf))],
          [kf_P (fp_update lib (Some a, Some b) (fp_predict lib kf))],
          fp_update lib (Some a, Some b) (fp_predict lib kf))"
proof -
  have "measurements [(Some a, Some b)] = [Some (Some a, Some b)]"
    by (simp add: measurements_def run_measurements_def isna_def)
  then have "run_filter lib kf [(Some a, Some b)] = Inr (batch_filter lib [Some (Some a, Some b)] kf)"
    by (simp only: run_filter_measurements [OF list.distinct(2)])
  then show ?thesis by (simp only: batch_one_update)
qed

lemma stand_in_update_mean:
  "kf_x (fp_update stand_in_filterpy (Some a, Some b) k) = [[a], [0], [0], [b], [0], [0]]"
  by (simp add: stand_in_filterpy_def)

lemma stand_in_smoother: "fp_rts_smoother stand_in_filterpy k mu cov = Inr mu"
  by (simp add: stand_in_filterpy_def)

lemma single_row_track:
  assumes "column df ''x'' = Some xs" and "column df ''y'' = Some ys"
    and "xs ! p = Some a" and "ys ! p = Some b"
  shows "kalman_track stand_in_filterpy df [p] =
     (case assign_columns df [p] kalman_columns [[[a], [0], [0], [b], [0], [0]]] of
        (Some e, d) \<Rightarrow> (Some e, d)
      | (None, d) \<Rightarrow> assign_columns d [p] rts_columns [[[a], [0], [0], [b], [0], [0]]])"
proof -
  have init: "initial_filter stand_in_filterpy [(Some a, Some b)]
      = Inr (kalman_filter stand_in_filterpy a b (1 / 30) 1)"
    by (simp add: initial_filter_def List.map_filter_simps present_def)
  show ?thesis
    unfolding kalman_track_def
    by (simp add: assms init run_filter_single stand_in_update_mean stand_in_smoother
        split: prod.splits option.splits)
qed

text \<open>
  C3. A track in which no row has both \<^verbatim>\<open>x\<close> and \<^verbatim>\<open>y\<close> present makes the body of the
  batch loop raise IndexError before anything is written, and when it is the first track
  of the table the whole call raises IndexError and leaves the table as it was.
\<close>

theorem no_measurement_raises_IndexError:
  assumes "column df ''x'' = Some xs" and "column df ''y'' = Some ys"
    and "list_all (\<lambda>p. isna (xs ! p) \<or> isna (ys ! p)) pos"
  shows "kalman_track lib df pos = (Some IndexError, df)
     \<and> (h r = df \<and> groupby_column df ''trackingId'' = Inr ((k, pos) # groups)
          \<longrightarrow> kalman lib h r = (Inl IndexError, h))"
proof -
  have "list_all (\<lambda>r. isna (fst r) \<or> isna (snd r)) (map (\<lambda>p. (xs ! p, ys ! p)) pos)"
    using assms(3) by (simp add: list_all_iff)
  then have "initial_filter lib (map (\<lambda>p. (xs ! p, ys ! p)) pos) = Inl IndexError"
    by (simp add: initial_filter_def no_present_row)
  then have track: "kalman_track lib df pos = (Some IndexError, df)"
    using assms(1,2) by (simp add: kalman_track_def)
  have "kalman lib h r = (Inl IndexError, h)"
    if "h r = df" and "groupby_column df ''trackingId'' = Inr ((k, pos) # groups)"
    using that track by (auto simp: kalman_def)
  with track show ?thesis by blast
qed

theorem no_measurement_raises_IndexError_witness:
  "column df_no_measurement ''x'' = Some [None]
   \<and> column df_no_measurement ''y'' = Some [None]
   \<and> list_all (\<lambda>p. isna ([None] ! p) \<or> isna ([None] ! p)) [0]
   \<and> kalman_track stand_in_filterpy df_no_measurement [0] = (Some IndexError, df_no_measurement)
   \<and> store_of df_no_measurement 0 = df_no_measurement
   \<and> groupby_column df_no_measurement ''trackingId'' = Inr [(1, [0])]
   \<and> kalman stand_in_filterpy (store_of df_no_measurement) 0
        = (Inl IndexError, store_of df_no_measurement)"
proof -
  have 1: "column df_no_measurement ''x'' = Some [None]"
    by (simp add: column_def df_no_measurement_def)
  have 2: "column df_no_measurement ''y'' = Some [None]"
    by (simp add: column_def df_no_measurement_def)
  have 3: "list_all (\<lambda>p. isna ([None] ! p) \<or> isna ([None] ! p)) [0]"
    by (simp add: isna_def)
  have 4: "store_of df_no_measurement 0 = df_no_measurement"
    by (simp add: store_of_def)
  have 5: "groupby_column df_no_measurement ''trackingId'' = Inr [(1, [0])]"
    by (simp add: groupby_column_def groupby_def column_def df_no_measurement_def
        List.map_filter_simps)
  note t = no_measurement_raises_IndexError [OF 1 2 3, of stand_in_filterpy
      "store_of df_no_measurement" 0 1 "[]"]
  from t have a: "kalman_track stand_in_filterpy df_no_measurement [0]
      = (Some IndexError, df_no_measurement)"
    by (rule conjunct1)
  from t 4 5 have b: "kalman stand_in_filterpy (store_of df_no_measurement) 0
      = (Inl IndexError, store_of df_no_measurement)"
    by blast
  show ?thesis
    by (rule conjI [OF 1 conjI [OF 2 conjI [OF 3 conjI [OF a conjI [OF 4 conjI [OF 5 b]]]]]])
qed

theorem no_measurement_not_UninitializedTrackError:
  "fst (kalman stand_in_filterpy (store_of df_no_measurement) 0) = Inl IndexError
   \<and> fst (kalman stand_in_filterpy (store_of df_no_measurement) 0) \<noteq> Inl UninitializedTrackError"
proof -
  have groups: "groupby_column (store_of df_no_measurement 0) ''trackingId'' = Inr [(1, [0])]"
    by (simp add: store_of_def groupby_column_def groupby_def column_def df_no_measurement_def
        List.map_filter_simps)
  have "kalman_track stand_in_filterpy df_no_measurement [0] = (Some IndexError, df_no_measurement)"
    by (simp add: kalman_track_def column_def df_no_measurement_def initial_filter_def
        List.map_filter_simps present_def)
  then have "fst (kalman stand_in_filterpy (store_of df_no_measurement) 0) = Inl IndexError"
    using groups by (simp add: kalman_def store_of_def)
  then show ?thesis by simp
qed

text \<open>
  C2. When the loop has passed the tracks \<open>pre\<close> and the body raises on the next
  track, the call raises that exception: no reference is returned, the table keeps what
  was written up to the failure, and the tracks \<open>post\<close> after the failing one have no
  influence on the outcome.
\<close>

theorem failure_aborts_batch:
  assumes "groupby_column (h df) ''trackingId'' = Inr (pre @ (k, pos) # post)"
    and "kalman_loop lib (h df) pre = (None, d1)"
    and "kalman_track lib d1 pos = (Some e, d2)"
  shows "kalman lib h df = (Inl e, h(df := d2))"
  using assms by (simp add: kalman_def kalman_loop_append)

theorem failure_aborts_batch_witness:
  "groupby_column (store_of df_two_tracks 0) ''trackingId'' = Inr ([] @ (1, [0]) # [(2, [1])])
   \<and> kalman_loop stand_in_filterpy (store_of df_two_tracks 0) [] = (None, df_two_tracks)
   \<and> kalman_track stand_in_filterpy df_two_tracks [0] = (Some IndexError, df_two_tracks)
   \<and> kalman stand_in_filterpy (store_of df_two_tracks) 0
        = (Inl IndexError, (store_of df_two_tracks)(0 := df_two_tracks))"
proof -
  have 1: "groupby_column (store_of df_two_tracks 0) ''trackingId'' = Inr ([] @ (1, [0]) # [(2, [1])])"
    by (simp add: store_of_def groupby_column_def groupby_def column_def df_two_tracks_def
        List.map_filter_simps)
  have 2: "kalman_loop stand_in_filterpy (store_of df_two_tracks 0) [] = (None, df_two_tracks)"
    by (simp add: store_of_def)
  have 3: "kalman_track stand_in_filterpy df_two_tracks [0] = (Some IndexError, df_two_tracks)"
    by (simp add: kalman_track_def column_def df_two_tracks_def initial_filter_def
        List.map_filter_simps present_def)
  note t = failure_aborts_batch [of "store_of df_two_tracks" 0 "[]" 1 "[0]" "[(2, [1])]"
      stand_in_filterpy df_two_tracks IndexError df_two_tracks]
  from t [OF 1 2 3] have 4: "kalman stand_in_filterpy (store_of df_two_tracks) 0
        = (Inl IndexError, (store_of df_two_tracks)(0 := df_two_tracks))" .
  show ?thesis
    by (rule conjI [OF 1 conjI [OF 2 conjI [OF 3 4]]])
qed

theorem failure_not_isolated:
  "fst (kalman stand_in_filterpy (store_of df_two_tracks) 0) = Inl IndexError
   \<and> snd (kalman stand_in_filterpy (store_of df_two_tracks) 0) 0 = df_two_tracks
   \<and> fst (kalman_track stand_in_filterpy df_two_tracks [1]) = None"
proof -
  have groups: "groupby_column (store_of df_two_tracks 0) ''trackingId'' = Inr [(1, [0]), (2, [1])]"
    by (simp add: store_of_def groupby_column_def groupby_def column_def df_two_tracks_def
        List.map_filter_simps)
  have first: "kalman_track stand_in_filterpy df_two_tracks [0] = (Some IndexError, df_two_tracks)"
    by (simp add: kalman_track_def column_def df_two_tracks_def initial_filter_def
        List.map_filter_simps present_def)
  have call: "kalman stand_in_filterpy (store_of df_two_tracks) 0
      = (Inl IndexError, (store_of df_two_tracks)(0 := df_two_tracks))"
    using groups first by (simp add: kalman_def store_of_def)
  have "kalman_track stand_in_filterpy df_two_tracks [1] =
     (case assign_columns df_two_tracks [1] kalman_columns [[[2], [0], [0], [2], [0], [0]]] of
        (Some e, d) \<Rightarrow> (Some e, d)
      | (None, d) \<Rightarrow> assign_columns d [1] rts_columns [[[2], [0], [0], [2], [0], [0]]])"
    by (rule single_row_track [where xs = "[None, Some 2]" and ys = "[None, Some 2]"])
      (simp_all add: column_def df_two_tracks_def)
  then have second: "fst (kalman_track stand_in_filterpy df_two_tracks [1]) = None"
    by (simp add: kalman_columns_def rts_columns_def component_def loc_set_def column_def
        df_two_tracks_def)
  show ?thesis
    using call second by simp
qed

section \<open>pixelmapper.py: the homography and the mapper\<close>

text \<open>
  C4. Fitting a homography hands back whatever the estimator produced, a matrix of any
  rank or \<^verbatim>\<open>None\<close>, and raises only what the estimator raises; nothing is checked.
\<close>

theorem extrinsic_calibration_unchecked:
  "(cv_findHomography cv pts_src pts_dst RANSAC 5 = Inr (h, inliers)
      \<longrightarrow> private_extrinsic_calibration cv pts_src pts_dst = Inr h)
   \<and> (cv_findHomography cv pts_src pts_dst RANSAC 5 = Inl e
      \<longrightarrow> private_extrinsic_calibration cv pts_src pts_dst = Inl e)"
  by (simp add: private_extrinsic_calibration_def)

theorem extrinsic_calibration_unchecked_witness:
  "cv_findHomography stand_in_cv2 collinear_points collinear_points RANSAC 5
     = Inr (None, [False, False, False, False])
   \<and> private_extrinsic_calibration stand_in_cv2 collinear_points collinear_points = Inr None"
proof -
  have 1: "cv_findHomography stand_in_cv2 collinear_points collinear_points RANSAC 5
     = Inr (None, [False, False, False, False])"
    by (simp add: stand_in_cv2_def collinear_points_def no_spread_def)
  from extrinsic_calibration_unchecked [of stand_in_cv2 collinear_points collinear_points
      None "[False, False, False, False]"] 1
  have "private_extrinsic_calibration stand_in_cv2 collinear_points collinear_points = Inr None"
    by blast
  with 1 show ?thesis by (rule conjI)
qed

theorem collinear_points_raise_nothing:
  "private_extrinsic_calibration stand_in_cv2 collinear_points collinear_points = Inr None
   \<and> private_extrinsic_calibration stand_in_cv2 collinear_points collinear_points
     \<noteq> Inl DegenerateHomographyError"
  by (simp add: private_extrinsic_calibration_def stand_in_cv2_def collinear_points_def
      no_spread_def)

text \<open>
  C6. An instance of \<open>PixelMapper\<close> has no attribute \<^verbatim>\<open>inv\<close>: the lookup that the
  usage notes at the head of the file perform raises AttributeError.
\<close>

theorem inverse_transform_missing:
  "PixelMapper_getattr ''inv'' = Inl AttributeError"
  by (simp add: PixelMapper_getattr_def PixelMapper_names_def)

text \<open>
  C8. A call of the mapper leaves the object as it was, so a second call on the same
  points gives the same result as the first.
\<close>

theorem forward_transform_stateless:
  "snd (PixelMapper_call cv self X) = self
   \<and> fst (PixelMapper_call cv (snd (PixelMapper_call cv self X)) X)
       = fst (PixelMapper_call cv self X)"
proof -
  have "snd (PixelMapper_call cv self X) = self"
    by (simp add: PixelMapper_call_def split: sum.splits)
  then show ?thesis by simp
qed

section \<open>What the batch writes into the dataframe\<close>




















end
